theory Spec2Isabelle
  imports Complex_Main
begin

section \<open>Wire protocol (src/src/lib/socket/events.ts)\<close>

text \<open>
  The payload interfaces of \<^verbatim>\<open>events.ts\<close>. A field that is optional in the TypeScript
  interface (\<^verbatim>\<open>socketId?\<close>, \<^verbatim>\<open>full_name?\<close>, \<^verbatim>\<open>position?\<close>) is an \<open>option\<close>.
  The field \<^verbatim>\<open>id\<close> of the user object is called \<open>user_id\<close> here, since \<open>id\<close> is the
  identity function of HOL.
\<close>

record user_metadata =
  full_name :: "string option"

text \<open>
  The server is plain JavaScript: its join-room handler stores the \<^verbatim>\<open>user\<close> object of
  the payload as it arrives, without looking at it. Whatever the interface says, the
  fields \<^verbatim>\<open>id\<close> and \<^verbatim>\<open>email\<close> of a stored user are therefore what the client sent: a
  string, \<^verbatim>\<open>null\<close>, or nothing at all (reading the field gives \<^verbatim>\<open>undefined\<close>). Equality on
  \<open>js_string\<close> is JavaScript's \<^verbatim>\<open>===\<close> on such values.
\<close>

datatype js_string = Undefined | Null | Str string

record user =
  user_id :: js_string
  email :: js_string
  user_metadata :: "user_metadata option"

text \<open>
  \<^verbatim>\<open>UserInfo\<close>: the objects of the roster. The server's \<^verbatim>\<open>user-joined\<close> and
  \<^verbatim>\<open>user-left\<close> payloads are \<^verbatim>\<open>{userId, userName, timestamp}\<close>, the entries of its
  \<^verbatim>\<open>room-users\<close> reply are \<^verbatim>\<open>{userId, userName, socketId}\<close>; the client stores both
  kinds of object in the same list, so one record with two optional fields holds them.
  \<open>userId\<close> and \<open>userName\<close> are copied by the server from a stored user.
\<close>

record UserInfo =
  userId :: js_string
  userName :: js_string
  socketId :: "string option"
  timestamp :: "string option"

record position =
  x :: real
  y :: real

record comment =
  comment_id :: string
  content :: string
  comment_pageNumber :: int
  comment_position :: "position option"
  comment_userId :: string
  comment_userName :: string

text \<open>
  The events a client sends, each with the fields of its payload in the order of the
  interface: \<^verbatim>\<open>RoomData {roomCode, user}\<close>, \<^verbatim>\<open>{roomCode}\<close>,
  \<^verbatim>\<open>PageChangeData {roomCode, pageNumber, userId}\<close>,
  \<^verbatim>\<open>CursorMoveData {roomCode, position, userId}\<close>, \<^verbatim>\<open>CommentData {roomCode, comment}\<close>.
\<close>

datatype client_event =
    JOIN_ROOM string user
  | LEAVE_ROOM string
  | PAGE_CHANGE string int string
  | CURSOR_MOVE string position string
  | COMMENT_ADDED string comment

text \<open>
  The events the server sends: \<^verbatim>\<open>user-joined\<close>, \<^verbatim>\<open>user-left\<close>, \<^verbatim>\<open>room-users\<close>,
  \<^verbatim>\<open>page-changed {pageNumber, userId, timestamp}\<close>,
  \<^verbatim>\<open>cursor-moved {position, userId, socketId, timestamp}\<close> and
  \<^verbatim>\<open>comment-received {comment, timestamp}\<close>.
\<close>

datatype server_event =
    USER_JOINED UserInfo
  | USER_LEFT UserInfo
  | ROOM_USERS "UserInfo list"
  | PAGE_CHANGED int string string
  | CURSOR_MOVED position string string string
  | COMMENT_RECEIVED comment string

section \<open>The broker (src/server/socket-server.js)\<close>

subsection \<open>State of the Socket.IO server\<close>

text \<open>
  The handlers attach two fields to each socket object: \<^verbatim>\<open>socket.currentRoom\<close> and
  \<^verbatim>\<open>socket.userInfo\<close>, both unset until the first \<^verbatim>\<open>join-room\<close>.
\<close>

record socket =
  socket_currentRoom :: "string option"
  socket_userInfo :: "user option"

text \<open>
  \<open>sockets\<close> is \<^verbatim>\<open>io.sockets.sockets\<close> (socket id to socket object) and \<open>rooms\<close> is
  \<^verbatim>\<open>io.sockets.adapter.rooms\<close> (room name to the set of socket ids in it). A JavaScript
  \<^verbatim>\<open>Set\<close> iterates in insertion order, so a room is a list without repetition; a room
  that the adapter does not hold is the empty list (the source reads it as
  \<^verbatim>\<open>rooms.get(roomCode) || []\<close>).
\<close>

record server =
  sockets :: "string \<rightharpoonup> socket"
  rooms :: "string \<Rightarrow> string list"

type_synonym outbox = "(string \<times> server_event) list"

subsection \<open>The Socket.IO operations the handlers call\<close>

text \<open>
  \<^verbatim>\<open>socket.join(room)\<close> adds the socket's id to the room's set (adding a present
  element changes nothing). When a connection opens, Socket.IO puts the socket in the
  room named by its own id; when one closes, it takes the socket out of every room and
  out of \<^verbatim>\<open>io.sockets.sockets\<close> before it fires \<^verbatim>\<open>disconnect\<close>.

  \<^verbatim>\<open>socket.to(room).emit(ev)\<close> is a broadcast to \<open>room\<close> with the room named by the calling
  socket's id as the excepted room: the adapter walks the members of \<open>room\<close> in order,
  skips each one that is a member of the excepted room, and sends \<open>ev\<close> to each of the
  others. The calling socket is skipped because it is in the room of its own id, and so
  is every other socket that has joined that room. (The adapter looks each member up in
  \<^verbatim>\<open>io.sockets.sockets\<close> before it sends; a member of a room is always a socket the
  server holds, so the look-up finds it.) \<^verbatim>\<open>socket.emit(ev)\<close> sends \<open>ev\<close> to the calling
  socket's own client.
\<close>

definition socket_join :: "server \<Rightarrow> string \<Rightarrow> string \<Rightarrow> server" where
  "socket_join s sid room =
     s\<lparr>rooms := (rooms s)(room :=
          (if sid \<in> set (rooms s room) then rooms s room else rooms s room @ [sid]))\<rparr>"

definition socket_to_emit :: "server \<Rightarrow> string \<Rightarrow> string \<Rightarrow> server_event \<Rightarrow> outbox" where
  "socket_to_emit s sid room ev =
     map (\<lambda>peer. (peer, ev))
       (filter (\<lambda>peer. peer \<notin> set (rooms s sid)) (rooms s room))"

definition socket_emit :: "string \<Rightarrow> server_event \<Rightarrow> outbox" where
  "socket_emit sid ev = [(sid, ev)]"

definition leaveAll :: "server \<Rightarrow> string \<Rightarrow> server" where
  "leaveAll s sid = s\<lparr>rooms := (\<lambda>room. removeAll sid (rooms s room))\<rparr>"

subsection \<open>The handlers\<close>

text \<open>
  \<^verbatim>\<open>user.user_metadata?.full_name || user.email\<close>: a missing or empty full name is falsy,
  and then the value is the email, whatever that is.
\<close>

definition display_name :: "user \<Rightarrow> js_string" where
  "display_name u =
     (case user_metadata u of
        None \<Rightarrow> email u
      | Some m \<Rightarrow>
          (case full_name m of
             None \<Rightarrow> email u
           | Some n \<Rightarrow> if n = [] then email u else Str n))"

text \<open>\<^verbatim>\<open>.filter(Boolean)\<close> on a list of objects and nulls.\<close>

fun filter_Boolean :: "'a option list \<Rightarrow> 'a list" where
  "filter_Boolean [] = []"
| "filter_Boolean (None # xs) = filter_Boolean xs"
| "filter_Boolean (Some v # xs) = v # filter_Boolean xs"

definition roster_entry :: "server \<Rightarrow> string \<Rightarrow> UserInfo option" where
  "roster_entry s sid =
     (case sockets s sid of
        None \<Rightarrow> None
      | Some userSocket \<Rightarrow>
          (case socket_userInfo userSocket of
             None \<Rightarrow> None
           | Some ui \<Rightarrow>
               Some \<lparr>userId = user_id ui, userName = display_name ui,
                     socketId = Some sid, timestamp = None\<rparr>))"

definition room_users :: "server \<Rightarrow> string \<Rightarrow> UserInfo list" where
  "room_users s roomCode = filter_Boolean (map (roster_entry s) (rooms s roomCode))"

text \<open>
  \<^verbatim>\<open>socket.on("join-room")\<close>. \<open>now\<close> is the value of \<^verbatim>\<open>new Date().toISOString()\<close> when
  the handler runs.
\<close>

definition on_join_room :: "server \<Rightarrow> string \<Rightarrow> string \<Rightarrow> string \<Rightarrow> user \<Rightarrow> server \<times> outbox" where
  "on_join_room s sid now roomCode u =
     (let s1 = socket_join s sid roomCode;
          s2 = s1\<lparr>sockets := (sockets s1)(sid \<mapsto>
                 \<lparr>socket_currentRoom = Some roomCode, socket_userInfo = Some u\<rparr>)\<rparr>;
          joined = socket_to_emit s2 sid roomCode
                     (USER_JOINED \<lparr>userId = user_id u, userName = display_name u,
                                   socketId = None, timestamp = Some now\<rparr>)
      in (s2, joined @ socket_emit sid (ROOM_USERS (room_users s2 roomCode))))"

text \<open>\<^verbatim>\<open>socket.on("page-change")\<close>, \<^verbatim>\<open>socket.on("cursor-move")\<close>, \<^verbatim>\<open>socket.on("comment-added")\<close>.\<close>

definition on_page_change :: "server \<Rightarrow> string \<Rightarrow> string \<Rightarrow> string \<Rightarrow> int \<Rightarrow> string \<Rightarrow> server \<times> outbox" where
  "on_page_change s sid now roomCode pageNumber uid =
     (s, socket_to_emit s sid roomCode (PAGE_CHANGED pageNumber uid now))"

definition on_cursor_move :: "server \<Rightarrow> string \<Rightarrow> string \<Rightarrow> string \<Rightarrow> position \<Rightarrow> string \<Rightarrow> server \<times> outbox" where
  "on_cursor_move s sid now roomCode pos uid =
     (s, socket_to_emit s sid roomCode (CURSOR_MOVED pos uid sid now))"

definition on_comment_added :: "server \<Rightarrow> string \<Rightarrow> string \<Rightarrow> string \<Rightarrow> comment \<Rightarrow> server \<times> outbox" where
  "on_comment_added s sid now roomCode c =
     (s, socket_to_emit s sid roomCode (COMMENT_RECEIVED c now))"

text \<open>
  \<^verbatim>\<open>socket.on("disconnect")\<close>. The handler reads the fields of the closed socket object;
  \<^verbatim>\<open>socket.currentRoom && socket.userInfo\<close> is false for an unset field and for the
  empty room code.
\<close>

definition on_disconnect :: "server \<Rightarrow> string \<Rightarrow> string \<Rightarrow> socket \<Rightarrow> outbox" where
  "on_disconnect s sid now sk =
     (case socket_currentRoom sk of
        None \<Rightarrow> []
      | Some room \<Rightarrow>
          (case socket_userInfo sk of
             None \<Rightarrow> []
           | Some ui \<Rightarrow>
               if room = [] then []
               else socket_to_emit s sid room
                      (USER_LEFT \<lparr>userId = user_id ui, userName = display_name ui,
                                  socketId = None, timestamp = Some now\<rparr>)))"

subsection \<open>The connection handler\<close>

text \<open>
  What reaches the server about one socket: the connection opens, an event arrives from
  the client, the connection closes. \<^verbatim>\<open>io.on("connection")\<close> registers listeners for
  \<^verbatim>\<open>join-room\<close>, \<^verbatim>\<open>page-change\<close>, \<^verbatim>\<open>cursor-move\<close>, \<^verbatim>\<open>comment-added\<close>, \<^verbatim>\<open>disconnect\<close> and
  \<^verbatim>\<open>error\<close>; an event without a listener (\<^verbatim>\<open>leave-room\<close>) is received and nothing runs.
\<close>

datatype transport = Connection | Message client_event | Disconnect

definition server_on :: "server \<Rightarrow> string \<Rightarrow> string \<Rightarrow> client_event \<Rightarrow> server \<times> outbox" where
  "server_on s sid now ev =
     (case ev of
        JOIN_ROOM roomCode u \<Rightarrow> on_join_room s sid now roomCode u
      | LEAVE_ROOM roomCode \<Rightarrow> (s, [])
      | PAGE_CHANGE roomCode pageNumber uid \<Rightarrow> on_page_change s sid now roomCode pageNumber uid
      | CURSOR_MOVE roomCode pos uid \<Rightarrow> on_cursor_move s sid now roomCode pos uid
      | COMMENT_ADDED roomCode c \<Rightarrow> on_comment_added s sid now roomCode c)"

definition server_step :: "server \<Rightarrow> string \<Rightarrow> string \<Rightarrow> transport \<Rightarrow> server \<times> outbox" where
  "server_step s sid now t =
     (case t of
        Connection \<Rightarrow>
          (socket_join
             (s\<lparr>sockets := (sockets s)(sid \<mapsto>
                   \<lparr>socket_currentRoom = None, socket_userInfo = None\<rparr>)\<rparr>) sid sid, [])
      | Message ev \<Rightarrow>
          (case sockets s sid of
             None \<Rightarrow> (s, [])
           | Some sk \<Rightarrow> server_on s sid now ev)
      | Disconnect \<Rightarrow>
          (case sockets s sid of
             None \<Rightarrow> (s, [])
           | Some sk \<Rightarrow>
               (let s1 = leaveAll s sid;
                    s2 = s1\<lparr>sockets := (sockets s1)(sid := None)\<rparr>
                in (s2, on_disconnect s2 sid now sk))))"

definition server0 :: server where
  "server0 = \<lparr>sockets = Map.empty, rooms = (\<lambda>room. [])\<rparr>"

text \<open>A run of the server over a list of (socket id, clock, input), outboxes concatenated.\<close>

fun server_run :: "server \<Rightarrow> (string \<times> string \<times> transport) list \<Rightarrow> server \<times> outbox" where
  "server_run s [] = (s, [])"
| "server_run s ((sid, now, t) # rest) =
     (let (s1, out1) = server_step s sid now t;
          (s2, out2) = server_run s1 rest
      in (s2, out1 @ out2))"

text \<open>
  The states the server can be in: it starts with no socket and no room, and each step is
  a connection, a message or a disconnection on some socket at some time.
\<close>

inductive reachable :: "server \<Rightarrow> bool" where
  start: "reachable server0"
| step: "reachable s \<Longrightarrow> reachable (fst (server_step s sid now t))"

section \<open>The client adapter (src/src/hooks/useSocket.ts)\<close>

text \<open>
  \<^verbatim>\<open>AuthUser\<close> (src/src/types/auth.ts) is the identity that \<^verbatim>\<open>useAuth()\<close> supplies: of
  the Supabase user the hook reads \<^verbatim>\<open>id\<close>, the optional \<^verbatim>\<open>email\<close> and \<^verbatim>\<open>user_metadata\<close>.
\<close>

record AuthUser =
  auth_id :: string
  auth_email :: "string option"
  auth_user_metadata :: user_metadata

text \<open>
  The state of the hook: the identity from the context, whether \<^verbatim>\<open>socketRef.current\<close>
  holds a socket, and the five \<^verbatim>\<open>useState\<close> cells.
\<close>

record client =
  user :: "AuthUser option"
  socketRef :: bool
  isConnected :: bool
  isConnecting :: bool
  error :: "string option"
  currentRoom :: "string option"
  roomUsers :: "UserInfo list"

subsection \<open>Listeners registered by initializeSocket\<close>

definition initializeSocket :: "client \<Rightarrow> client" where
  "initializeSocket c =
     (if user c = None \<or> socketRef c then c
      else c\<lparr>isConnecting := True, error := None, socketRef := True\<rparr>)"

definition on_CONNECT :: "client \<Rightarrow> client" where
  "on_CONNECT c = c\<lparr>isConnected := True, isConnecting := False, error := None\<rparr>"

definition on_DISCONNECT :: "client \<Rightarrow> client" where
  "on_DISCONNECT c =
     c\<lparr>isConnected := False, isConnecting := False, currentRoom := None, roomUsers := []\<rparr>"

definition on_CONNECT_ERROR :: "client \<Rightarrow> client" where
  "on_CONNECT_ERROR c =
     c\<lparr>isConnecting := False, error := Some ''Failed to connect to collaboration server''\<rparr>"

definition on_ERROR :: "client \<Rightarrow> client" where
  "on_ERROR c = c\<lparr>error := Some ''Connection error occurred''\<rparr>"

definition on_USER_JOINED :: "client \<Rightarrow> UserInfo \<Rightarrow> client" where
  "on_USER_JOINED c u =
     c\<lparr>roomUsers := filter (\<lambda>v. userId v \<noteq> userId u) (roomUsers c) @ [u]\<rparr>"

definition on_USER_LEFT :: "client \<Rightarrow> UserInfo \<Rightarrow> client" where
  "on_USER_LEFT c u = c\<lparr>roomUsers := filter (\<lambda>v. userId v \<noteq> userId u) (roomUsers c)\<rparr>"

definition on_ROOM_USERS :: "client \<Rightarrow> UserInfo list \<Rightarrow> client" where
  "on_ROOM_USERS c users = c\<lparr>roomUsers := users\<rparr>"

subsection \<open>Operations of the hook\<close>

text \<open>
  Each operation returns the new state and the events it emits on the socket.
  \<^verbatim>\<open>cleanup\<close> calls \<^verbatim>\<open>socket.disconnect()\<close>, on which a connected client socket fires its
  own \<^verbatim>\<open>disconnect\<close> listener, and then resets the cells itself.
\<close>

definition cleanup :: "client \<Rightarrow> client" where
  "cleanup c =
     (let c1 = (if socketRef c
                then (if isConnected c then on_DISCONNECT c else c)\<lparr>socketRef := False\<rparr>
                else c)
      in c1\<lparr>isConnected := False, currentRoom := None, roomUsers := []\<rparr>)"

definition joinRoom :: "client \<Rightarrow> string \<Rightarrow> client \<times> client_event list" where
  "joinRoom c roomCode =
     (case user c of
        None \<Rightarrow> (c, [])
      | Some u \<Rightarrow>
          if \<not> socketRef c then (c, [])
          else (c\<lparr>currentRoom := Some roomCode\<rparr>,
                [JOIN_ROOM roomCode
                   \<lparr>user_id = Str (auth_id u),
                    email = Str (case auth_email u of None \<Rightarrow> [] | Some e \<Rightarrow> e),
                    user_metadata = Some (auth_user_metadata u)\<rparr>]))"

text \<open>\<^verbatim>\<open>!currentRoom\<close> holds for \<^verbatim>\<open>null\<close> and for the empty string.\<close>

definition leaveRoom :: "client \<Rightarrow> client \<times> client_event list" where
  "leaveRoom c =
     (case currentRoom c of
        None \<Rightarrow> (c, [])
      | Some room \<Rightarrow>
          if \<not> socketRef c \<or> room = [] then (c, [])
          else (c\<lparr>currentRoom := None, roomUsers := []\<rparr>, [LEAVE_ROOM room]))"

definition emitPageChange :: "client \<Rightarrow> string \<Rightarrow> int \<Rightarrow> client \<times> client_event list" where
  "emitPageChange c roomCode pageNumber =
     (case user c of
        None \<Rightarrow> (c, [])
      | Some u \<Rightarrow>
          if \<not> socketRef c then (c, [])
          else (c, [PAGE_CHANGE roomCode pageNumber (auth_id u)]))"

definition emitCursorMove :: "client \<Rightarrow> string \<Rightarrow> position \<Rightarrow> client \<times> client_event list" where
  "emitCursorMove c roomCode pos =
     (case user c of
        None \<Rightarrow> (c, [])
      | Some u \<Rightarrow>
          if \<not> socketRef c then (c, [])
          else (c, [CURSOR_MOVE roomCode pos (auth_id u)]))"

definition emitComment :: "client \<Rightarrow> string \<Rightarrow> comment \<Rightarrow> client \<times> client_event list" where
  "emitComment c roomCode cm =
     (if \<not> socketRef c then (c, []) else (c, [COMMENT_ADDED roomCode cm]))"

subsection \<open>The adapter as a machine\<close>

text \<open>
  Everything that can happen to the hook: a transport event, an event from the server, or
  a call of one of its operations. The hook keeps no state for \<^verbatim>\<open>page-changed\<close>,
  \<^verbatim>\<open>cursor-moved\<close> and \<^verbatim>\<open>comment-received\<close>: it only passes them to the callbacks of its
  caller.

  One input is one browser event, and React renders the component again before the next
  one. An operation therefore sees the cells as the previous input left them, which is
  what \<^verbatim>\<open>leaveRoom\<close> relies on: it reads the \<open>currentRoom\<close> of the render that created it.
  Two operations called from one and the same event handler are not an input of this
  machine.
\<close>

datatype call =
    Call_initializeSocket
  | Call_cleanup
  | Call_joinRoom string
  | Call_leaveRoom
  | Call_emitPageChange string int
  | Call_emitCursorMove string position
  | Call_emitComment string comment

datatype client_input = CONNECT | DISCONNECT | CONNECT_ERROR | ERROR | Inbound server_event | Call call

fun is_joinRoom :: "client_input \<Rightarrow> bool" where
  "is_joinRoom (Call (Call_joinRoom roomCode)) = True"
| "is_joinRoom other = False"

fun client_step :: "client \<Rightarrow> client_input \<Rightarrow> client \<times> client_event list" where
  "client_step c CONNECT = (on_CONNECT c, [])"
| "client_step c DISCONNECT = (on_DISCONNECT c, [])"
| "client_step c CONNECT_ERROR = (on_CONNECT_ERROR c, [])"
| "client_step c ERROR = (on_ERROR c, [])"
| "client_step c (Inbound (USER_JOINED u)) = (on_USER_JOINED c u, [])"
| "client_step c (Inbound (USER_LEFT u)) = (on_USER_LEFT c u, [])"
| "client_step c (Inbound (ROOM_USERS users)) = (on_ROOM_USERS c users, [])"
| "client_step c (Inbound other) = (c, [])"
| "client_step c (Call Call_initializeSocket) = (initializeSocket c, [])"
| "client_step c (Call Call_cleanup) = (cleanup c, [])"
| "client_step c (Call (Call_joinRoom roomCode)) = joinRoom c roomCode"
| "client_step c (Call Call_leaveRoom) = leaveRoom c"
| "client_step c (Call (Call_emitPageChange roomCode pageNumber)) = emitPageChange c roomCode pageNumber"
| "client_step c (Call (Call_emitCursorMove roomCode pos)) = emitCursorMove c roomCode pos"
| "client_step c (Call (Call_emitComment roomCode cm)) = emitComment c roomCode cm"

fun client_run :: "client \<Rightarrow> client_input list \<Rightarrow> client" where
  "client_run c [] = c"
| "client_run c (i # rest) = client_run (fst (client_step c i)) rest"

section \<open>Concrete runs\<close>

text \<open>
  The hook starts with the initial values of its \<^verbatim>\<open>useState\<close> cells and no socket.
\<close>

definition client0 :: "AuthUser option \<Rightarrow> client" where
  "client0 u = \<lparr>user = u, socketRef = False, isConnected = False, isConnecting = False,
                error = None, currentRoom = None, roomUsers = []\<rparr>"

text \<open>What the server has sent to one socket, as inputs of that socket's client.\<close>

definition inbox :: "outbox \<Rightarrow> string \<Rightarrow> client_input list" where
  "inbox out sid = map (\<lambda>m. Inbound (snd m)) (filter (\<lambda>m. fst m = sid) out)"

definition alice :: user where
  "alice = \<lparr>user_id = Str ''u1'', email = Str ''alice@example.com'',
            user_metadata = Some \<lparr>full_name = Some ''Alice''\<rparr>\<rparr>"

definition bob :: user where
  "bob = \<lparr>user_id = Str ''u2'', email = Str ''bob@example.com'', user_metadata = None\<rparr>"


definition alice_auth :: AuthUser where
  "alice_auth = \<lparr>auth_id = ''u1'', auth_email = Some ''alice@example.com'',
                 auth_user_metadata = \<lparr>full_name = Some ''Alice''\<rparr>\<rparr>"

definition bob_auth :: AuthUser where
  "bob_auth = \<lparr>auth_id = ''u2'', auth_email = Some ''bob@example.com'',
               auth_user_metadata = \<lparr>full_name = None\<rparr>\<rparr>"

definition t0 :: string where
  "t0 = ''2024-01-01T00:00:00.000Z''"

text \<open>Two sockets \<open>sA\<close> and \<open>sB\<close> are connected; neither has joined a room.\<close>

definition connected_pair :: server where
  "connected_pair =
     fst (server_run server0 [(''sA'', t0, Connection), (''sB'', t0, Connection)])"

text \<open>Alice on \<open>sA\<close> and Bob on \<open>sB\<close> have both joined room \<open>ABC123\<close>.\<close>

definition two_in_room :: server where
  "two_in_room = fst (server_run connected_pair
     [(''sA'', t0, Message (JOIN_ROOM ''ABC123'' alice)),
      (''sB'', t0, Message (JOIN_ROOM ''ABC123'' bob))])"

text \<open>
  From there, Bob's socket goes on to join the room whose code is \<open>sA\<close>, the id of Alice's
  socket (ids are sent to every joiner in \<^verbatim>\<open>room-users\<close>).
\<close>

definition peer_in_sender_room :: server where
  "peer_in_sender_room =
     fst (server_run two_in_room [(''sB'', t0, Message (JOIN_ROOM ''sA'' bob))])"

text \<open>Only Bob has joined \<open>ABC123\<close>; \<open>sA\<close> is connected and in no room of its choosing.\<close>

definition outsider :: server where
  "outsider =
     fst (server_run connected_pair [(''sB'', t0, Message (JOIN_ROOM ''ABC123'' bob))])"

text \<open>Bob has joined the room whose code is the empty string.\<close>

definition empty_code_room :: server where
  "empty_code_room =
     fst (server_run connected_pair [(''sB'', t0, Message (JOIN_ROOM [] bob))])"

text \<open>Alice has joined \<open>ROOM-A\<close>.\<close>

definition in_room_A :: server where
  "in_room_A =
     fst (server_run connected_pair [(''sA'', t0, Message (JOIN_ROOM ''ROOM-A'' alice))])"

text \<open>
  Bob joins \<open>XYZ\<close> on \<open>sB\<close>, then Alice joins it from two tabs, sockets \<open>sA\<close> and \<open>sA2\<close>;
  \<open>bob_client\<close> and \<open>alice_tab2\<close> are the hooks behind \<open>sB\<close> and \<open>sA2\<close> after they have
  processed everything the server sent them during that run.
\<close>

definition tabs_run :: "server \<times> outbox" where
  "tabs_run = server_run server0
     [(''sB'', t0, Connection), (''sA'', t0, Connection), (''sA2'', t0, Connection),
      (''sB'', t0, Message (JOIN_ROOM ''XYZ'' bob)),
      (''sA'', t0, Message (JOIN_ROOM ''XYZ'' alice)),
      (''sA2'', t0, Message (JOIN_ROOM ''XYZ'' alice))]"

definition bob_client :: client where
  "bob_client = client_run (client0 (Some bob_auth))
     ([Call Call_initializeSocket, CONNECT, Call (Call_joinRoom ''XYZ'')]
      @ inbox (snd tabs_run) ''sB'')"

definition alice_tab2 :: client where
  "alice_tab2 = client_run (client0 (Some alice_auth))
     ([Call Call_initializeSocket, CONNECT, Call (Call_joinRoom ''XYZ'')]
      @ inbox (snd tabs_run) ''sA2'')"

text \<open>Alice's hook once connected, and once it has called \<^verbatim>\<open>joinRoom("ABC123")\<close>.\<close>

definition alice_connected :: client where
  "alice_connected =
     client_run (client0 (Some alice_auth)) [Call Call_initializeSocket, CONNECT]"

definition alice_in_room :: client where
  "alice_in_room = client_run alice_connected [Call (Call_joinRoom ''ABC123'')]"

section \<open>Facts used throughout\<close>

lemmas server_defs = server_step_def server_on_def on_join_room_def on_page_change_def
  on_cursor_move_def on_comment_added_def on_disconnect_def socket_join_def socket_to_emit_def
  socket_emit_def leaveAll_def room_users_def roster_entry_def display_name_def server0_def

lemmas client_defs = client0_def on_CONNECT_def on_DISCONNECT_def on_CONNECT_ERROR_def
  on_ERROR_def on_USER_JOINED_def on_USER_LEFT_def on_ROOM_USERS_def initializeSocket_def
  cleanup_def joinRoom_def leaveRoom_def emitPageChange_def emitCursorMove_def emitComment_def

subsection \<open>What holds in every state the server can reach\<close>

lemma server_step_sockets:
  "sockets (fst (server_step s sid now t)) sid' \<noteq> None \<longleftrightarrow>
     (if sid' = sid
      then (case t of Connection \<Rightarrow> True | Message ev \<Rightarrow> sockets s sid \<noteq> None
            | Disconnect \<Rightarrow> False)
      else sockets s sid' \<noteq> None)"
  by (cases t; cases "sockets s sid")
     (auto simp: server_defs Let_def split: client_event.splits)

lemma server_step_rooms:
  "set (rooms (fst (server_step s sid now t)) room) =
     (case t of
        Connection \<Rightarrow> (if room = sid then insert sid (set (rooms s room)) else set (rooms s room))
      | Message ev \<Rightarrow>
          (case ev of
             JOIN_ROOM roomCode u \<Rightarrow>
               (if sockets s sid \<noteq> None \<and> room = roomCode
                then insert sid (set (rooms s room)) else set (rooms s room))
           | _ \<Rightarrow> set (rooms s room))
      | Disconnect \<Rightarrow>
          (if sockets s sid \<noteq> None then set (rooms s room) - {sid} else set (rooms s room)))"
  by (cases t; cases "sockets s sid")
     (auto simp: server_defs Let_def split: client_event.splits)

lemma server_step_distinct:
  "distinct (rooms s room) \<Longrightarrow> distinct (rooms (fst (server_step s sid now t)) room)"
  by (cases t; cases "sockets s sid")
     (auto simp: server_defs Let_def distinct_removeAll split: client_event.splits)

lemma reachable_own_room:
  "reachable s \<Longrightarrow> sockets s sid \<noteq> None \<Longrightarrow> sid \<in> set (rooms s sid)"
proof (induction arbitrary: sid rule: reachable.induct)
  case start
  then show ?case by (simp add: server0_def)
next
  case (step s sid' now t)
  then show ?case
    by (auto simp: server_step_sockets server_step_rooms simp del: not_None_eq
          split: if_splits transport.splits client_event.splits)
qed

lemma reachable_member_connected:
  "reachable s \<Longrightarrow> peer \<in> set (rooms s room) \<Longrightarrow> sockets s peer \<noteq> None"
proof (induction arbitrary: peer room rule: reachable.induct)
  case start
  then show ?case by (simp add: server0_def)
next
  case (step s sid' now t)
  then show ?case
    by (auto simp: server_step_sockets server_step_rooms simp del: not_None_eq
          split: if_splits transport.splits client_event.splits)
qed

lemma reachable_distinct: "reachable s \<Longrightarrow> distinct (rooms s room)"
  by (induction rule: reachable.induct) (simp_all add: server0_def server_step_distinct)

lemma reachable_server_run: "reachable s \<Longrightarrow> reachable (fst (server_run s inputs))"
proof (induction inputs arbitrary: s)
  case Nil
  then show ?case by simp
next
  case (Cons i rest)
  obtain sid now t where i: "i = (sid, now, t)"
    by (cases i)
  from Cons.prems have "reachable (fst (server_step s sid now t))"
    by (rule reachable.step)
  then have "reachable (fst (server_run (fst (server_step s sid now t)) rest))"
    by (rule Cons.IH)
  then show ?case
    by (simp add: i split_beta)
qed

subsection \<open>The effect of a join\<close>

lemma join_room_rooms:
  "rooms (fst (on_join_room s sid now roomCode u)) =
     (rooms s)(roomCode := (if sid \<in> set (rooms s roomCode) then rooms s roomCode
                            else rooms s roomCode @ [sid]))"
  by (simp add: on_join_room_def socket_join_def Let_def)

lemma join_room_sockets:
  "sockets (fst (on_join_room s sid now roomCode u)) =
     (sockets s)(sid \<mapsto> \<lparr>socket_currentRoom = Some roomCode, socket_userInfo = Some u\<rparr>)"
  by (simp add: on_join_room_def socket_join_def Let_def)

lemma server_step_join:
  "sockets s sid \<noteq> None \<Longrightarrow>
     server_step s sid now (Message (JOIN_ROOM roomCode u)) = on_join_room s sid now roomCode u"
  by (auto simp: server_step_def server_on_def)

lemma join_room_outbox:
  "snd (on_join_room s sid now roomCode u) =
     socket_to_emit (fst (on_join_room s sid now roomCode u)) sid roomCode
       (USER_JOINED \<lparr>userId = user_id u, userName = display_name u,
                     socketId = None, timestamp = Some now\<rparr>)
     @ [(sid, ROOM_USERS (room_users (fst (on_join_room s sid now roomCode u)) roomCode))]"
  by (simp add: on_join_room_def socket_emit_def Let_def)

subsection \<open>The concrete runs\<close>

lemma reachable_connected_pair: "reachable connected_pair"
  unfolding connected_pair_def by (intro reachable_server_run reachable.start)

lemma reachable_two_in_room: "reachable two_in_room"
  unfolding two_in_room_def by (intro reachable_server_run reachable_connected_pair)

lemma reachable_outsider: "reachable outsider"
  unfolding outsider_def by (intro reachable_server_run reachable_connected_pair)

lemma reachable_empty_code_room: "reachable empty_code_room"
  unfolding empty_code_room_def by (intro reachable_server_run reachable_connected_pair)

lemma connected_pair_rooms:
  "rooms connected_pair [] = []" "rooms connected_pair ''sA'' = [''sA'']"
  "rooms connected_pair ''sB'' = [''sB'']" "rooms connected_pair ''R1'' = []"
  by (simp_all add: connected_pair_def server_defs)

lemma connected_pair_sockets:
  "sockets connected_pair ''sA'' = Some \<lparr>socket_currentRoom = None, socket_userInfo = None\<rparr>"
  "sockets connected_pair ''sB'' = Some \<lparr>socket_currentRoom = None, socket_userInfo = None\<rparr>"
  by (simp_all add: connected_pair_def server_defs)

lemma two_in_room_rooms:
  "rooms two_in_room ''ABC123'' = [''sA'', ''sB'']"
  "rooms two_in_room ''sA'' = [''sA'']" "rooms two_in_room ''sB'' = [''sB'']"
  by (simp_all add: two_in_room_def connected_pair_def server_defs)

lemma two_in_room_sA:
  "sockets two_in_room ''sA'' =
     Some \<lparr>socket_currentRoom = Some ''ABC123'', socket_userInfo = Some alice\<rparr>"
  by (simp add: two_in_room_def connected_pair_def server_defs)

lemma two_in_room_sB:
  "sockets two_in_room ''sB'' =
     Some \<lparr>socket_currentRoom = Some ''ABC123'', socket_userInfo = Some bob\<rparr>"
  by (simp add: two_in_room_def connected_pair_def server_defs)

lemma peer_in_sender_room_rooms:
  "rooms peer_in_sender_room ''ABC123'' = [''sA'', ''sB'']"
  "rooms peer_in_sender_room ''sA'' = [''sA'', ''sB'']"
  by (simp_all add: peer_in_sender_room_def two_in_room_rooms two_in_room_sB server_step_def
        server_on_def on_join_room_def socket_join_def Let_def)

lemma peer_in_sender_room_sA:
  "sockets peer_in_sender_room ''sA'' =
     Some \<lparr>socket_currentRoom = Some ''ABC123'', socket_userInfo = Some alice\<rparr>"
  by (simp add: peer_in_sender_room_def two_in_room_sA two_in_room_sB server_step_def
        server_on_def on_join_room_def socket_join_def Let_def)

lemma alice_fields: "user_id alice = Str ''u1''" "display_name alice = Str ''Alice''"
  by (simp_all add: alice_def display_name_def)



lemma alice_connected_eq:
  "alice_connected = \<lparr>user = Some alice_auth, socketRef = True, isConnected = True,
     isConnecting = False, error = None, currentRoom = None, roomUsers = []\<rparr>"
  by (simp add: alice_connected_def client_defs)

lemma alice_in_room_eq:
  "alice_in_room = \<lparr>user = Some alice_auth, socketRef = True, isConnected = True,
     isConnecting = False, error = None, currentRoom = Some ''ABC123'', roomUsers = []\<rparr>"
  by (simp add: alice_in_room_def alice_connected_eq client_defs)

section \<open>Fan-out of a page change\<close>

text \<open>
  C5, as the code has it. In every state the server can reach, when connection \<open>A\<close> is a
  member of room \<open>R\<close> and emits a page-change for \<open>R\<close>, the server's state is unchanged
  and a \<^verbatim>\<open>page-changed\<close> is sent, once each, to exactly the members of \<open>R\<close> that are not
  members of the room named by \<open>A\<close>'s socket id. Nothing is sent to \<open>A\<close> itself. When \<open>A\<close>
  is alone in the room of its id, every other member of \<open>R\<close> is sent the event.
\<close>

theorem page_change_reaches_peers_outside_sender_room:
  assumes "reachable s" and "A \<in> set (rooms s R)"
  shows "fst (server_step s A now (Message (PAGE_CHANGE R pageNumber uid))) = s
     \<and> (\<forall>B ev. (B, ev) \<in> set (snd (server_step s A now (Message (PAGE_CHANGE R pageNumber uid))))
            \<longleftrightarrow> B \<in> set (rooms s R) \<and> B \<notin> set (rooms s A)
                \<and> ev = PAGE_CHANGED pageNumber uid now)
     \<and> (\<forall>ev. (A, ev) \<notin> set (snd (server_step s A now (Message (PAGE_CHANGE R pageNumber uid)))))
     \<and> distinct (map fst (snd (server_step s A now (Message (PAGE_CHANGE R pageNumber uid)))))
     \<and> (rooms s A = [A] \<longrightarrow>
          (\<forall>B. B \<in> set (rooms s R) \<and> B \<noteq> A \<longrightarrow>
             (B, PAGE_CHANGED pageNumber uid now)
               \<in> set (snd (server_step s A now (Message (PAGE_CHANGE R pageNumber uid))))))"
proof -
  from assms have connected: "sockets s A \<noteq> None"
    by (rule reachable_member_connected)
  with assms(1) have own: "A \<in> set (rooms s A)"
    by (rule reachable_own_room)
  from connected have step: "server_step s A now (Message (PAGE_CHANGE R pageNumber uid))
      = (s, map (\<lambda>peer. (peer, PAGE_CHANGED pageNumber uid now))
              (filter (\<lambda>peer. peer \<notin> set (rooms s A)) (rooms s R)))"
    by (auto simp: server_step_def server_on_def on_page_change_def socket_to_emit_def)
  have once: "distinct (filter (\<lambda>peer. peer \<notin> set (rooms s A)) (rooms s R))"
    using reachable_distinct [OF assms(1)] by simp
  from own once show ?thesis
    by (auto simp: step comp_def)
qed

text \<open>
  In the room of Alice (\<open>sA\<close>) and Bob (\<open>sB\<close>), Alice's page-change to page 5 is sent to
  \<open>sB\<close> and not to \<open>sA\<close>.
\<close>

theorem page_change_reaches_peers_outside_sender_room_witness:
  "reachable two_in_room
   \<and> ''sA'' \<in> set (rooms two_in_room ''ABC123'')
   \<and> rooms two_in_room ''sA'' = [''sA'']
   \<and> fst (server_step two_in_room ''sA'' t0 (Message (PAGE_CHANGE ''ABC123'' 5 ''u1'')))
       = two_in_room
   \<and> (''sB'', PAGE_CHANGED 5 ''u1'' t0)
       \<in> set (snd (server_step two_in_room ''sA'' t0 (Message (PAGE_CHANGE ''ABC123'' 5 ''u1''))))
   \<and> (''sA'', PAGE_CHANGED 5 ''u1'' t0)
       \<notin> set (snd (server_step two_in_room ''sA'' t0 (Message (PAGE_CHANGE ''ABC123'' 5 ''u1''))))"
proof -
  have member: "''sA'' \<in> set (rooms two_in_room ''ABC123'')"
    by (simp add: two_in_room_rooms)
  from page_change_reaches_peers_outside_sender_room
         [OF reachable_two_in_room member, of t0 5 "''u1''"]
       reachable_two_in_room member
  show ?thesis by (simp add: two_in_room_rooms)
qed

text \<open>
  Bob's socket \<open>sB\<close> is in \<open>ABC123\<close> with Alice and has also joined the room named \<open>sA\<close>.
  Alice's page-change for \<open>ABC123\<close> is sent to nobody, although \<open>sB\<close> is another current
  member of that room.
\<close>

theorem page_change_skips_peer_counterexample:
  "rooms peer_in_sender_room ''ABC123'' = [''sA'', ''sB'']
   \<and> rooms peer_in_sender_room ''sA'' = [''sA'', ''sB'']
   \<and> snd (server_step peer_in_sender_room ''sA'' t0 (Message (PAGE_CHANGE ''ABC123'' 5 ''u1'')))
       = []"
  by (simp add: peer_in_sender_room_rooms peer_in_sender_room_sA server_step_def server_on_def
        on_page_change_def socket_to_emit_def)

section \<open>The adapter after a transport disconnect\<close>

lemma client_step_keeps_no_room:
  assumes "currentRoom c = None" and "\<not> is_joinRoom i"
  shows "currentRoom (fst (client_step c i)) = None"
  using assms
  by (cases "(c, i)" rule: client_step.cases)
     (auto simp: client_defs Let_def split: option.splits)

lemma client_run_keeps_no_room:
  "currentRoom c = None \<Longrightarrow> \<forall>i \<in> set inputs. \<not> is_joinRoom i \<Longrightarrow>
   currentRoom (client_run c inputs) = None"
proof (induction inputs arbitrary: c)
  case Nil
  then show ?case by simp
next
  case (Cons i rest)
  from Cons.prems have "currentRoom (fst (client_step c i)) = None"
    by (simp add: client_step_keeps_no_room)
  with Cons show ?case by simp
qed

text \<open>
  C10. The \<^verbatim>\<open>disconnect\<close> listener leaves the adapter with \<open>currentRoom\<close> null and
  \<open>roomUsers\<close> empty, and so does \<^verbatim>\<open>cleanup\<close>. Whatever happens to the adapter afterwards
  (reconnection, inbound events, any operation of the hook), \<open>currentRoom\<close> stays null as
  long as \<^verbatim>\<open>joinRoom\<close> is not called.
\<close>

theorem disconnect_clears_room_state:
  "currentRoom (fst (client_step c DISCONNECT)) = None
   \<and> roomUsers (fst (client_step c DISCONNECT)) = []
   \<and> currentRoom (cleanup c) = None \<and> roomUsers (cleanup c) = []
   \<and> ((\<forall>i \<in> set inputs. \<not> is_joinRoom i) \<longrightarrow>
        currentRoom (client_run (fst (client_step c DISCONNECT)) inputs) = None)"
proof -
  have "currentRoom (on_DISCONNECT c) = None"
    by (simp add: on_DISCONNECT_def)
  then have "(\<forall>i \<in> set inputs. \<not> is_joinRoom i) \<longrightarrow>
      currentRoom (client_run (on_DISCONNECT c) inputs) = None"
    by (simp add: client_run_keeps_no_room)
  then show ?thesis
    by (simp add: on_DISCONNECT_def cleanup_def Let_def)
qed

text \<open>
  Alice's hook is in room \<open>ABC123\<close> when the transport drops. It reconnects, a stray
  \<^verbatim>\<open>user-joined\<close> arrives and the page is turned: the hook is still in no room.
\<close>

theorem disconnect_clears_room_state_witness:
  "currentRoom alice_in_room = Some ''ABC123''
   \<and> currentRoom (fst (client_step alice_in_room DISCONNECT)) = None
   \<and> roomUsers (fst (client_step alice_in_room DISCONNECT)) = []
   \<and> currentRoom (client_run (fst (client_step alice_in_room DISCONNECT))
        [CONNECT,
         Inbound (USER_JOINED \<lparr>userId = Str ''u2'', userName = Str ''bob@example.com'',
                               socketId = None, timestamp = Some t0\<rparr>),
         Call (Call_emitPageChange ''ABC123'' 3)]) = None"
  using disconnect_clears_room_state [of alice_in_room
      "[CONNECT,
        Inbound (USER_JOINED \<lparr>userId = Str ''u2'', userName = Str ''bob@example.com'',
                              socketId = None, timestamp = Some t0\<rparr>),
        Call (Call_emitPageChange ''ABC123'' 3)]"]
  by (simp add: alice_in_room_eq)

section \<open>Emitting from the adapter outside a room\<close>

text \<open>
  C8, as the code has it. \<^verbatim>\<open>emitPageChange\<close> and \<^verbatim>\<open>emitCursorMove\<close> emit exactly when the
  adapter holds a socket and a user, \<^verbatim>\<open>emitComment\<close> exactly when it holds a socket.
  \<open>currentRoom\<close> plays no part: the events emitted are the same whatever it is. None of the
  three changes the adapter's state, so nothing is reported when the guard stops a call.
\<close>

theorem emit_guard_is_socket_and_user:
  "fst (emitPageChange c roomCode pageNumber) = c
   \<and> fst (emitCursorMove c roomCode pos) = c
   \<and> fst (emitComment c roomCode cm) = c
   \<and> snd (emitPageChange c roomCode pageNumber) =
       (if socketRef c \<and> user c \<noteq> None
        then [PAGE_CHANGE roomCode pageNumber (auth_id (the (user c)))] else [])
   \<and> snd (emitCursorMove c roomCode pos) =
       (if socketRef c \<and> user c \<noteq> None
        then [CURSOR_MOVE roomCode pos (auth_id (the (user c)))] else [])
   \<and> snd (emitComment c roomCode cm) =
       (if socketRef c then [COMMENT_ADDED roomCode cm] else [])
   \<and> snd (emitPageChange (c\<lparr>currentRoom := room\<rparr>) roomCode pageNumber) =
       snd (emitPageChange c roomCode pageNumber)
   \<and> snd (emitCursorMove (c\<lparr>currentRoom := room\<rparr>) roomCode pos) =
       snd (emitCursorMove c roomCode pos)
   \<and> snd (emitComment (c\<lparr>currentRoom := room\<rparr>) roomCode cm) =
       snd (emitComment c roomCode cm)"
  by (simp add: emitPageChange_def emitCursorMove_def emitComment_def split: option.splits)

theorem emit_guard_is_socket_and_user_witness:
  "snd (emitPageChange alice_connected ''ABC123'' 5) = [PAGE_CHANGE ''ABC123'' 5 ''u1'']
   \<and> snd (emitPageChange (client0 (Some alice_auth)) ''ABC123'' 5) = []
   \<and> fst (emitPageChange (client0 (Some alice_auth)) ''ABC123'' 5) = client0 (Some alice_auth)"
  using emit_guard_is_socket_and_user [of alice_connected "''ABC123''" 5]
        emit_guard_is_socket_and_user [of "client0 (Some alice_auth)" "''ABC123''" 5]
  by (simp add: alice_connected_eq client0_def alice_auth_def)

text \<open>
  Alice's hook is connected and in no room; \<^verbatim>\<open>emitPageChange\<close> emits all the same, and
  the hook's error cell stays empty.
\<close>

theorem emit_outside_room_counterexample:
  "currentRoom alice_connected = None
   \<and> snd (emitPageChange alice_connected ''ABC123'' 5) = [PAGE_CHANGE ''ABC123'' 5 ''u1'']
   \<and> error (fst (emitPageChange alice_connected ''ABC123'' 5)) = None"
  by (simp add: alice_connected_eq emitPageChange_def alice_auth_def)

section \<open>The roster\<close>


lemma set_filter_Boolean: "set (filter_Boolean xs) = {v. Some v \<in> set xs}"
  by (induction xs rule: filter_Boolean.induct) auto

lemma in_room_users:
  "e \<in> set (room_users s roomCode) \<longleftrightarrow>
     (\<exists>m \<in> set (rooms s roomCode). roster_entry s m = Some e)"
  by (auto simp: room_users_def set_filter_Boolean image_iff; metis)






section \<open>Two connections of one user\<close>

lemma tabs_run_rooms:
  "rooms (fst tabs_run) ''XYZ'' = [''sB'', ''sA'', ''sA2'']"
  "rooms (fst tabs_run) ''sA'' = [''sA'']"
  by (simp_all add: tabs_run_def server_defs)

lemma tabs_run_sockets:
  "sockets (fst tabs_run) ''sA'' =
     Some \<lparr>socket_currentRoom = Some ''XYZ'', socket_userInfo = Some alice\<rparr>"
  "sockets (fst tabs_run) ''sA2'' =
     Some \<lparr>socket_currentRoom = Some ''XYZ'', socket_userInfo = Some alice\<rparr>"
  "sockets (fst tabs_run) ''sB'' =
     Some \<lparr>socket_currentRoom = Some ''XYZ'', socket_userInfo = Some bob\<rparr>"
  by (simp_all add: tabs_run_def server_defs)

lemma tabs_run_inbox_sB:
  "inbox (snd tabs_run) ''sB'' =
     [Inbound (ROOM_USERS [\<lparr>userId = Str ''u2'', userName = Str ''bob@example.com'',
                            socketId = Some ''sB'', timestamp = None\<rparr>]),
      Inbound (USER_JOINED \<lparr>userId = Str ''u1'', userName = Str ''Alice'',
                            socketId = None, timestamp = Some t0\<rparr>),
      Inbound (USER_JOINED \<lparr>userId = Str ''u1'', userName = Str ''Alice'',
                            socketId = None, timestamp = Some t0\<rparr>)]"
  by (simp add: tabs_run_def inbox_def server_defs alice_def bob_def)

lemma tabs_run_inbox_sA2:
  "inbox (snd tabs_run) ''sA2'' =
     [Inbound (ROOM_USERS [\<lparr>userId = Str ''u2'', userName = Str ''bob@example.com'',
                            socketId = Some ''sB'', timestamp = None\<rparr>,
                           \<lparr>userId = Str ''u1'', userName = Str ''Alice'',
                            socketId = Some ''sA'', timestamp = None\<rparr>,
                           \<lparr>userId = Str ''u1'', userName = Str ''Alice'',
                            socketId = Some ''sA2'', timestamp = None\<rparr>])]"
  by (simp add: tabs_run_def inbox_def server_defs alice_def bob_def)

lemma tabs_run_room_users:
  "room_users (fst tabs_run) ''XYZ'' =
     [\<lparr>userId = Str ''u2'', userName = Str ''bob@example.com'', socketId = Some ''sB'', timestamp = None\<rparr>,
      \<lparr>userId = Str ''u1'', userName = Str ''Alice'', socketId = Some ''sA'', timestamp = None\<rparr>,
      \<lparr>userId = Str ''u1'', userName = Str ''Alice'', socketId = Some ''sA2'', timestamp = None\<rparr>]"
  by (simp add: room_users_def roster_entry_def tabs_run_rooms tabs_run_sockets
        display_name_def alice_def bob_def)

lemma tabs_run_sA_disconnects:
  "inbox (snd (server_step (fst tabs_run) ''sA'' t0 Disconnect)) ''sA2'' =
     [Inbound (USER_LEFT \<lparr>userId = Str ''u1'', userName = Str ''Alice'',
                          socketId = None, timestamp = Some t0\<rparr>)]"
  by (simp add: server_step_def tabs_run_sockets tabs_run_rooms on_disconnect_def leaveAll_def
        socket_to_emit_def inbox_def display_name_def alice_def Let_def)

lemma bob_client_roomUsers:
  "roomUsers bob_client =
     [\<lparr>userId = Str ''u2'', userName = Str ''bob@example.com'', socketId = Some ''sB'', timestamp = None\<rparr>,
      \<lparr>userId = Str ''u1'', userName = Str ''Alice'', socketId = None, timestamp = Some t0\<rparr>]"
  by (simp add: bob_client_def tabs_run_inbox_sB client_defs)

lemma alice_tab2_roomUsers:
  "roomUsers alice_tab2 =
     [\<lparr>userId = Str ''u2'', userName = Str ''bob@example.com'', socketId = Some ''sB'', timestamp = None\<rparr>,
      \<lparr>userId = Str ''u1'', userName = Str ''Alice'', socketId = Some ''sA'', timestamp = None\<rparr>,
      \<lparr>userId = Str ''u1'', userName = Str ''Alice'', socketId = Some ''sA2'', timestamp = None\<rparr>]"
  by (simp add: alice_tab2_def tabs_run_inbox_sA2 client_defs)

text \<open>
  C6, as the code has it. On the server the roster is per connection: two distinct member
  sockets with identities set are two entries of the \<^verbatim>\<open>room-users\<close> reply, each with its
  own \<open>socketId\<close>. On the client the roster is per user: after \<^verbatim>\<open>user-joined\<close> the list
  holds exactly one entry with that \<open>userId\<close> (the new one), after \<^verbatim>\<open>user-left\<close> it holds
  none, and in both cases the entries of every other \<open>userId\<close> are kept as they were.
\<close>

theorem roster_per_connection_on_server_per_user_on_client:
  assumes "a \<in> set (rooms s R)" and "b \<in> set (rooms s R)" and "a \<noteq> b"
    and "sockets s a = Some ska" and "socket_userInfo ska = Some ua"
    and "sockets s b = Some skb" and "socket_userInfo skb = Some ub"
  shows "\<lparr>userId = user_id ua, userName = display_name ua, socketId = Some a, timestamp = None\<rparr>
           \<in> set (room_users s R)
     \<and> \<lparr>userId = user_id ub, userName = display_name ub, socketId = Some b, timestamp = None\<rparr>
           \<in> set (room_users s R)
     \<and> \<lparr>userId = user_id ua, userName = display_name ua, socketId = Some a, timestamp = None\<rparr>
         \<noteq> \<lparr>userId = user_id ub, userName = display_name ub, socketId = Some b, timestamp = None\<rparr>
     \<and> filter (\<lambda>v. userId v = userId u) (roomUsers (on_USER_JOINED c u)) = [u]
     \<and> filter (\<lambda>v. userId v \<noteq> userId u) (roomUsers (on_USER_JOINED c u))
         = filter (\<lambda>v. userId v \<noteq> userId u) (roomUsers c)
     \<and> filter (\<lambda>v. userId v = userId u) (roomUsers (on_USER_LEFT c u)) = []
     \<and> filter (\<lambda>v. userId v \<noteq> userId u) (roomUsers (on_USER_LEFT c u))
         = filter (\<lambda>v. userId v \<noteq> userId u) (roomUsers c)"
proof -
  have "roster_entry s a = Some \<lparr>userId = user_id ua, userName = display_name ua,
                                  socketId = Some a, timestamp = None\<rparr>"
    and "roster_entry s b = Some \<lparr>userId = user_id ub, userName = display_name ub,
                                  socketId = Some b, timestamp = None\<rparr>"
    using assms by (simp_all add: roster_entry_def)
  with assms(1,2) have server_side:
    "\<lparr>userId = user_id ua, userName = display_name ua, socketId = Some a, timestamp = None\<rparr>
       \<in> set (room_users s R)"
    "\<lparr>userId = user_id ub, userName = display_name ub, socketId = Some b, timestamp = None\<rparr>
       \<in> set (room_users s R)"
    by (auto simp: in_room_users)
  have none_left: "filter (\<lambda>v. userId v = userId u) (filter (\<lambda>v. userId v \<noteq> userId u) xs) = []"
    for xs :: "UserInfo list"
    by (induction xs) simp_all
  from server_side \<open>a \<noteq> b\<close> show ?thesis
    by (simp add: on_USER_JOINED_def on_USER_LEFT_def none_left)
qed

text \<open>
  Alice's two tabs \<open>sA\<close> and \<open>sA2\<close> in room \<open>XYZ\<close> are two entries of the server's roster.
  When the \<^verbatim>\<open>user-left\<close> for \<open>sA\<close> reaches the hook behind \<open>sA2\<close>, no entry of Alice is left
  in its list.
\<close>

theorem roster_per_connection_on_server_per_user_on_client_witness:
  "''sA'' \<in> set (rooms (fst tabs_run) ''XYZ'') \<and> ''sA2'' \<in> set (rooms (fst tabs_run) ''XYZ'')
   \<and> \<lparr>userId = Str ''u1'', userName = Str ''Alice'', socketId = Some ''sA'', timestamp = None\<rparr>
        \<in> set (room_users (fst tabs_run) ''XYZ'')
   \<and> \<lparr>userId = Str ''u1'', userName = Str ''Alice'', socketId = Some ''sA2'', timestamp = None\<rparr>
        \<in> set (room_users (fst tabs_run) ''XYZ'')
   \<and> filter (\<lambda>v. userId v = Str ''u1'')
        (roomUsers (on_USER_LEFT alice_tab2
           \<lparr>userId = Str ''u1'', userName = Str ''Alice'', socketId = None, timestamp = Some t0\<rparr>)) = []"
proof -
  have members: "''sA'' \<in> set (rooms (fst tabs_run) ''XYZ'')"
      "''sA2'' \<in> set (rooms (fst tabs_run) ''XYZ'')"
    by (simp_all add: tabs_run_rooms)
  have distinct_sockets: "''sA'' \<noteq> ''sA2''"
    by simp
  have bound: "socket_userInfo \<lparr>socket_currentRoom = Some ''XYZ'', socket_userInfo = Some alice\<rparr>
      = Some alice"
    by simp
  from roster_per_connection_on_server_per_user_on_client
         [OF members distinct_sockets tabs_run_sockets(1) bound tabs_run_sockets(2) bound,
          of "\<lparr>userId = Str ''u1'', userName = Str ''Alice'', socketId = None, timestamp = Some t0\<rparr>"
             alice_tab2]
    members
  show ?thesis by (simp add: alice_def display_name_def)
qed

text \<open>
  The run behind the witness, end to end. The server's roster of \<open>XYZ\<close> has an entry for
  each of Alice's tabs. Bob's hook has processed both \<^verbatim>\<open>user-joined\<close> events and lists
  Alice once. The hook behind \<open>sA2\<close> lists both tabs from the \<^verbatim>\<open>room-users\<close> reply; when
  \<open>sA\<close> disconnects and the \<^verbatim>\<open>user-left\<close> arrives, the entry of \<open>sA2\<close> goes with that of \<open>sA\<close>.
\<close>

theorem roster_same_user_two_tabs_counterexample:
  "room_users (fst tabs_run) ''XYZ'' =
     [\<lparr>userId = Str ''u2'', userName = Str ''bob@example.com'', socketId = Some ''sB'', timestamp = None\<rparr>,
      \<lparr>userId = Str ''u1'', userName = Str ''Alice'', socketId = Some ''sA'', timestamp = None\<rparr>,
      \<lparr>userId = Str ''u1'', userName = Str ''Alice'', socketId = Some ''sA2'', timestamp = None\<rparr>]
   \<and> roomUsers bob_client =
     [\<lparr>userId = Str ''u2'', userName = Str ''bob@example.com'', socketId = Some ''sB'', timestamp = None\<rparr>,
      \<lparr>userId = Str ''u1'', userName = Str ''Alice'', socketId = None, timestamp = Some t0\<rparr>]
   \<and> roomUsers alice_tab2 =
     [\<lparr>userId = Str ''u2'', userName = Str ''bob@example.com'', socketId = Some ''sB'', timestamp = None\<rparr>,
      \<lparr>userId = Str ''u1'', userName = Str ''Alice'', socketId = Some ''sA'', timestamp = None\<rparr>,
      \<lparr>userId = Str ''u1'', userName = Str ''Alice'', socketId = Some ''sA2'', timestamp = None\<rparr>]
   \<and> roomUsers (client_run alice_tab2
        (inbox (snd (server_step (fst tabs_run) ''sA'' t0 Disconnect)) ''sA2'')) =
     [\<lparr>userId = Str ''u2'', userName = Str ''bob@example.com'', socketId = Some ''sB'', timestamp = None\<rparr>]"
  by (simp add: tabs_run_room_users bob_client_roomUsers alice_tab2_roomUsers
        tabs_run_sA_disconnects on_USER_LEFT_def)

section \<open>Routing without a membership check\<close>

lemma outsider_rooms:
  "rooms outsider ''ABC123'' = [''sB'']" "rooms outsider ''sA'' = [''sA'']"
  by (simp_all add: outsider_def connected_pair_def server_defs)

lemma outsider_sockets:
  "sockets outsider ''sA'' = Some \<lparr>socket_currentRoom = None, socket_userInfo = None\<rparr>"
  "sockets outsider ''sB'' =
     Some \<lparr>socket_currentRoom = Some ''ABC123'', socket_userInfo = Some bob\<rparr>"
  by (simp_all add: outsider_def connected_pair_def server_defs)

text \<open>
  C2, as the code has it. The three routing handlers do not look at the sender's
  membership. In every state the server can reach, when a connected sender is not a
  member of the event's room, the event is still fanned out: it is sent, in the order of
  the room, to each member of that room that is not in the room named by the sender's
  socket id, and to the whole room when the sender is alone in the room of its id. The
  server's state is unchanged and no error is sent to anyone.
\<close>

theorem route_from_non_member_is_fanned_out:
  assumes "reachable s" and "sockets s sid \<noteq> None" and "sid \<notin> set (rooms s roomCode)"
  shows "server_step s sid now (Message (PAGE_CHANGE roomCode pageNumber uid))
           = (s, map (\<lambda>peer. (peer, PAGE_CHANGED pageNumber uid now))
                   (filter (\<lambda>peer. peer \<notin> set (rooms s sid)) (rooms s roomCode)))
     \<and> server_step s sid now (Message (CURSOR_MOVE roomCode pos uid))
           = (s, map (\<lambda>peer. (peer, CURSOR_MOVED pos uid sid now))
                   (filter (\<lambda>peer. peer \<notin> set (rooms s sid)) (rooms s roomCode)))
     \<and> server_step s sid now (Message (COMMENT_ADDED roomCode cm))
           = (s, map (\<lambda>peer. (peer, COMMENT_RECEIVED cm now))
                   (filter (\<lambda>peer. peer \<notin> set (rooms s sid)) (rooms s roomCode)))
     \<and> (rooms s sid = [sid] \<longrightarrow>
          server_step s sid now (Message (PAGE_CHANGE roomCode pageNumber uid))
            = (s, map (\<lambda>peer. (peer, PAGE_CHANGED pageNumber uid now)) (rooms s roomCode))
          \<and> server_step s sid now (Message (CURSOR_MOVE roomCode pos uid))
            = (s, map (\<lambda>peer. (peer, CURSOR_MOVED pos uid sid now)) (rooms s roomCode))
          \<and> server_step s sid now (Message (COMMENT_ADDED roomCode cm))
            = (s, map (\<lambda>peer. (peer, COMMENT_RECEIVED cm now)) (rooms s roomCode)))"
proof -
  have routed: "server_step s sid now (Message (PAGE_CHANGE roomCode pageNumber uid))
           = (s, map (\<lambda>peer. (peer, PAGE_CHANGED pageNumber uid now))
                   (filter (\<lambda>peer. peer \<notin> set (rooms s sid)) (rooms s roomCode)))"
      "server_step s sid now (Message (CURSOR_MOVE roomCode pos uid))
           = (s, map (\<lambda>peer. (peer, CURSOR_MOVED pos uid sid now))
                   (filter (\<lambda>peer. peer \<notin> set (rooms s sid)) (rooms s roomCode)))"
      "server_step s sid now (Message (COMMENT_ADDED roomCode cm))
           = (s, map (\<lambda>peer. (peer, COMMENT_RECEIVED cm now))
                   (filter (\<lambda>peer. peer \<notin> set (rooms s sid)) (rooms s roomCode)))"
    using assms(2)
    by (auto simp: server_step_def server_on_def on_page_change_def on_cursor_move_def
          on_comment_added_def socket_to_emit_def)
  have whole: "filter (\<lambda>peer. peer \<notin> set (rooms s sid)) (rooms s roomCode) = rooms s roomCode"
    if "rooms s sid = [sid]"
    using that assms(3) by (auto simp: filter_id_conv)
  from routed whole show ?thesis
    by simp
qed

text \<open>
  Socket \<open>sA\<close> has joined nothing and Bob is alone in \<open>ABC123\<close>. A page-change from \<open>sA\<close>
  for \<open>ABC123\<close> is delivered to Bob.
\<close>

theorem route_from_non_member_is_fanned_out_witness:
  "reachable outsider
   \<and> sockets outsider ''sA'' \<noteq> None
   \<and> ''sA'' \<notin> set (rooms outsider ''ABC123'')
   \<and> rooms outsider ''sA'' = [''sA'']
   \<and> server_step outsider ''sA'' t0 (Message (PAGE_CHANGE ''ABC123'' 7 ''u1''))
       = (outsider, [(''sB'', PAGE_CHANGED 7 ''u1'' t0)])"
proof -
  have connected: "sockets outsider ''sA'' \<noteq> None"
    by (simp add: outsider_sockets)
  have not_member: "''sA'' \<notin> set (rooms outsider ''ABC123'')"
    by (simp add: outsider_rooms)
  note routed = route_from_non_member_is_fanned_out
    [OF reachable_outsider connected not_member, of t0 7 "''u1''"]
  from routed [THEN conjunct1]
  have "server_step outsider ''sA'' t0 (Message (PAGE_CHANGE ''ABC123'' 7 ''u1''))
       = (outsider, [(''sB'', PAGE_CHANGED 7 ''u1'' t0)])"
    by (simp add: outsider_rooms)
  with reachable_outsider connected not_member show ?thesis
    by (simp add: outsider_rooms)
qed

theorem route_not_in_room_counterexample:
  "''sA'' \<notin> set (rooms outsider ''ABC123'')
   \<and> sockets outsider ''sA'' = Some \<lparr>socket_currentRoom = None, socket_userInfo = None\<rparr>
   \<and> snd (server_step outsider ''sA'' t0 (Message (PAGE_CHANGE ''ABC123'' 7 ''u1'')))
       = [(''sB'', PAGE_CHANGED 7 ''u1'' t0)]"
  by (simp add: outsider_rooms outsider_sockets server_step_def server_on_def
        on_page_change_def socket_to_emit_def)

section \<open>Joining a second room\<close>

lemma in_room_A_rooms: "rooms in_room_A ''ROOM-A'' = [''sA'']" "rooms in_room_A ''ROOM-B'' = []"
  by (simp_all add: in_room_A_def connected_pair_def server_defs)

lemma in_room_A_sA:
  "sockets in_room_A ''sA'' =
     Some \<lparr>socket_currentRoom = Some ''ROOM-A'', socket_userInfo = Some alice\<rparr>"
  by (simp add: in_room_A_def connected_pair_def server_defs)

text \<open>
  C3, as the code has it. A join adds the connection to the requested room and takes it
  out of none: every room other than the requested one has the members it had, so the
  connection is still in each room it was in. Only the socket's \<open>currentRoom\<close> field,
  which is overwritten with the new room code, names a single room.
\<close>

theorem join_leaves_no_room:
  "sid \<in> set (rooms (fst (on_join_room s sid now roomCode u)) roomCode)
   \<and> (\<forall>room. room \<noteq> roomCode \<longrightarrow>
          rooms (fst (on_join_room s sid now roomCode u)) room = rooms s room)
   \<and> (\<forall>room. sid \<in> set (rooms s room) \<longrightarrow>
          sid \<in> set (rooms (fst (on_join_room s sid now roomCode u)) room))
   \<and> map_option socket_currentRoom (sockets (fst (on_join_room s sid now roomCode u)) sid)
       = Some (Some roomCode)"
  by (simp add: join_room_rooms join_room_sockets)

theorem join_leaves_no_room_witness:
  "''sA'' \<in> set (rooms in_room_A ''ROOM-A'')
   \<and> ''ROOM-A'' \<noteq> ''ROOM-B''
   \<and> ''sA'' \<in> set (rooms (fst (on_join_room in_room_A ''sA'' t0 ''ROOM-B'' alice)) ''ROOM-B'')
   \<and> ''sA'' \<in> set (rooms (fst (on_join_room in_room_A ''sA'' t0 ''ROOM-B'' alice)) ''ROOM-A'')
   \<and> rooms (fst (on_join_room in_room_A ''sA'' t0 ''ROOM-B'' alice)) ''ROOM-A''
       = rooms in_room_A ''ROOM-A''
   \<and> map_option socket_currentRoom
        (sockets (fst (on_join_room in_room_A ''sA'' t0 ''ROOM-B'' alice)) ''sA'')
       = Some (Some ''ROOM-B'')"
proof -
  have before: "''sA'' \<in> set (rooms in_room_A ''ROOM-A'')"
    by (simp add: in_room_A_rooms)
  from join_leaves_no_room [of "''sA''" in_room_A t0 "''ROOM-B''" alice] before
  show ?thesis by simp
qed

text \<open>
  Alice on \<open>sA\<close> is in \<open>ROOM-A\<close> and joins \<open>ROOM-B\<close>. Afterwards \<open>sA\<close> is a member of both
  rooms, and its \<open>currentRoom\<close> is \<open>ROOM-B\<close>.
\<close>

theorem join_second_room_counterexample:
  "rooms in_room_A ''ROOM-A'' = [''sA'']
   \<and> rooms (fst (server_step in_room_A ''sA'' t0 (Message (JOIN_ROOM ''ROOM-B'' alice)))) ''ROOM-A''
       = [''sA'']
   \<and> rooms (fst (server_step in_room_A ''sA'' t0 (Message (JOIN_ROOM ''ROOM-B'' alice)))) ''ROOM-B''
       = [''sA'']
   \<and> sockets (fst (server_step in_room_A ''sA'' t0 (Message (JOIN_ROOM ''ROOM-B'' alice)))) ''sA''
       = Some \<lparr>socket_currentRoom = Some ''ROOM-B'', socket_userInfo = Some alice\<rparr>"
  by (simp add: in_room_A_rooms in_room_A_sA server_step_def server_on_def join_room_rooms
        join_room_sockets)

section \<open>Provenance of a fanned-out event\<close>

text \<open>
  C4, as the code has it. Every \<^verbatim>\<open>page-changed\<close> and \<^verbatim>\<open>cursor-moved\<close> that is fanned out
  carries the \<open>userId\<close> of the inbound payload and the server's clock; \<^verbatim>\<open>cursor-moved\<close>
  carries the sender's socket id as well, and \<^verbatim>\<open>comment-received\<close> the inbound comment and
  the clock only. The identity stored on the sender's socket at join is not read:
  replacing it changes nothing in what is sent.
\<close>

theorem fan_out_user_id_is_payload_user_id:
  "(\<forall>recipient ev.
       (recipient, ev) \<in> set (snd (on_page_change s sid now roomCode pageNumber uid)) \<longrightarrow>
       ev = PAGE_CHANGED pageNumber uid now)
   \<and> (\<forall>recipient ev.
       (recipient, ev) \<in> set (snd (on_cursor_move s sid now roomCode pos uid)) \<longrightarrow>
       ev = CURSOR_MOVED pos uid sid now)
   \<and> (\<forall>recipient ev.
       (recipient, ev) \<in> set (snd (on_comment_added s sid now roomCode cm)) \<longrightarrow>
       ev = COMMENT_RECEIVED cm now)
   \<and> snd (on_page_change (s\<lparr>sockets := (sockets s)(sid \<mapsto> sk)\<rparr>) sid now roomCode pageNumber uid)
       = snd (on_page_change s sid now roomCode pageNumber uid)
   \<and> snd (on_cursor_move (s\<lparr>sockets := (sockets s)(sid \<mapsto> sk)\<rparr>) sid now roomCode pos uid)
       = snd (on_cursor_move s sid now roomCode pos uid)
   \<and> snd (on_comment_added (s\<lparr>sockets := (sockets s)(sid \<mapsto> sk)\<rparr>) sid now roomCode cm)
       = snd (on_comment_added s sid now roomCode cm)"
  by (auto simp: on_page_change_def on_cursor_move_def on_comment_added_def socket_to_emit_def)

theorem fan_out_user_id_is_payload_user_id_witness:
  "(''sB'', PAGE_CHANGED 5 ''mallory'' t0)
      \<in> set (snd (on_page_change two_in_room ''sA'' t0 ''ABC123'' 5 ''mallory''))
   \<and> snd (on_page_change
        (two_in_room\<lparr>sockets := (sockets two_in_room)(''sA'' \<mapsto>
           \<lparr>socket_currentRoom = Some ''ABC123'', socket_userInfo = Some bob\<rparr>)\<rparr>)
        ''sA'' t0 ''ABC123'' 5 ''mallory'')
       = snd (on_page_change two_in_room ''sA'' t0 ''ABC123'' 5 ''mallory'')"
proof -
  have sent: "(''sB'', PAGE_CHANGED 5 ''mallory'' t0)
      \<in> set (snd (on_page_change two_in_room ''sA'' t0 ''ABC123'' 5 ''mallory''))"
    by (simp add: on_page_change_def socket_to_emit_def two_in_room_rooms two_in_room_sB)
  note payload = fan_out_user_id_is_payload_user_id
         [where s = two_in_room and sid = "''sA''" and now = t0 and roomCode = "''ABC123''"
            and pageNumber = 5 and uid = "''mallory''"
            and sk = "\<lparr>socket_currentRoom = Some ''ABC123'', socket_userInfo = Some bob\<rparr>"]
  have same: "snd (on_page_change
        (two_in_room\<lparr>sockets := (sockets two_in_room)(''sA'' \<mapsto>
           \<lparr>socket_currentRoom = Some ''ABC123'', socket_userInfo = Some bob\<rparr>)\<rparr>)
        ''sA'' t0 ''ABC123'' 5 ''mallory'')
       = snd (on_page_change two_in_room ''sA'' t0 ''ABC123'' 5 ''mallory'')"
    by (rule payload [THEN conjunct2, THEN conjunct2, THEN conjunct2, THEN conjunct1])
  from sent same show ?thesis by (rule conjI)
qed

text \<open>
  Socket \<open>sA\<close> joined as Alice, user \<open>u1\<close>. Its page-change names \<open>mallory\<close> as the user,
  and that is the \<open>userId\<close> Bob receives.
\<close>

theorem origin_user_id_counterexample:
  "sockets two_in_room ''sA''
     = Some \<lparr>socket_currentRoom = Some ''ABC123'', socket_userInfo = Some alice\<rparr>
   \<and> user_id alice = Str ''u1''
   \<and> snd (server_step two_in_room ''sA'' t0 (Message (PAGE_CHANGE ''ABC123'' 5 ''mallory'')))
       = [(''sB'', PAGE_CHANGED 5 ''mallory'' t0)]"
  by (simp add: two_in_room_sA two_in_room_sB two_in_room_rooms alice_def server_step_def
        server_on_def on_page_change_def socket_to_emit_def)

section \<open>Joining with any room code\<close>

lemma empty_code_room_facts:
  "rooms empty_code_room [] = [''sB'']" "rooms empty_code_room ''sA'' = [''sA'']"
  "sockets empty_code_room ''sA'' = Some \<lparr>socket_currentRoom = None, socket_userInfo = None\<rparr>"
  "sockets empty_code_room ''sB'' =
     Some \<lparr>socket_currentRoom = Some [], socket_userInfo = Some bob\<rparr>"
  by (simp_all add: empty_code_room_def connected_pair_def server_defs)

text \<open>
  C7, as the code has it. The join-room handler does not validate the room code. In every
  state the server can reach, a join-room from a connected socket with any string as room
  code, the empty string included, succeeds: the socket becomes a member of the room of
  exactly that code and its \<open>currentRoom\<close> is that code. What is sent is a
  \<^verbatim>\<open>user-joined\<close> to each member of that room that is not in the room named by the
  joiner's socket id, followed by the \<^verbatim>\<open>room-users\<close> reply to the joiner, and nothing
  else: no error is sent.
\<close>

theorem join_takes_room_code_as_given:
  assumes "reachable s" and "sockets s sid \<noteq> None"
  shows "sid \<in> set (rooms (fst (server_step s sid now (Message (JOIN_ROOM roomCode u)))) roomCode)
     \<and> sockets (fst (server_step s sid now (Message (JOIN_ROOM roomCode u)))) sid
         = Some \<lparr>socket_currentRoom = Some roomCode, socket_userInfo = Some u\<rparr>
     \<and> snd (server_step s sid now (Message (JOIN_ROOM roomCode u)))
         = map (\<lambda>peer. (peer, USER_JOINED \<lparr>userId = user_id u, userName = display_name u,
                                           socketId = None, timestamp = Some now\<rparr>))
             (filter (\<lambda>peer. peer \<notin> set (rooms s sid)) (rooms s roomCode))
           @ [(sid, ROOM_USERS
                 (room_users (fst (server_step s sid now (Message (JOIN_ROOM roomCode u))))
                    roomCode))]
     \<and> sid \<in> set (rooms (fst (server_step s sid now (Message (JOIN_ROOM [] u)))) [])"
proof -
  let ?s' = "fst (on_join_room s sid now roomCode u)"
  have step: "server_step s sid now (Message (JOIN_ROOM code u)) = on_join_room s sid now code u"
    for code
    using assms(2) by (rule server_step_join)
  from assms have own: "sid \<in> set (rooms s sid)"
    by (rule reachable_own_room)
  from own have own_room: "rooms ?s' sid = rooms s sid"
    by (cases "sid = roomCode") (simp_all add: join_room_rooms)
  have "filter (\<lambda>peer. peer \<notin> set (rooms s sid)) (rooms ?s' roomCode)
      = filter (\<lambda>peer. peer \<notin> set (rooms s sid)) (rooms s roomCode)"
    using own by (cases "sid \<in> set (rooms s roomCode)") (simp_all add: join_room_rooms)
  then have told: "socket_to_emit ?s' sid roomCode ev
      = map (\<lambda>peer. (peer, ev)) (filter (\<lambda>peer. peer \<notin> set (rooms s sid)) (rooms s roomCode))"
    for ev
    by (simp add: socket_to_emit_def own_room)
  show ?thesis
    by (simp add: step join_room_rooms join_room_sockets join_room_outbox told)
qed

text \<open>
  Bob is in the room with the empty code and Alice's socket \<open>sA\<close> asks to join it. Bob is
  told, and \<open>sA\<close> is sent the roster of that room with both of them on it.
\<close>

theorem join_takes_room_code_as_given_witness:
  "reachable empty_code_room
   \<and> sockets empty_code_room ''sA'' \<noteq> None
   \<and> ''sA'' \<in> set (rooms (fst (server_step empty_code_room ''sA'' t0 (Message (JOIN_ROOM [] alice)))) [])
   \<and> sockets (fst (server_step empty_code_room ''sA'' t0 (Message (JOIN_ROOM [] alice)))) ''sA''
       = Some \<lparr>socket_currentRoom = Some [], socket_userInfo = Some alice\<rparr>
   \<and> snd (server_step empty_code_room ''sA'' t0 (Message (JOIN_ROOM [] alice)))
       = [(''sB'', USER_JOINED \<lparr>userId = Str ''u1'', userName = Str ''Alice'',
                                socketId = None, timestamp = Some t0\<rparr>),
          (''sA'', ROOM_USERS
             (room_users (fst (server_step empty_code_room ''sA'' t0 (Message (JOIN_ROOM [] alice))))
                []))]"
proof -
  have connected: "sockets empty_code_room ''sA'' \<noteq> None"
    by (simp add: empty_code_room_facts)
  note join = join_takes_room_code_as_given
    [OF reachable_empty_code_room connected, of t0 "[]" alice]
  from join [THEN conjunct2, THEN conjunct2, THEN conjunct1]
  have sent: "snd (server_step empty_code_room ''sA'' t0 (Message (JOIN_ROOM [] alice)))
       = [(''sB'', USER_JOINED \<lparr>userId = Str ''u1'', userName = Str ''Alice'',
                                socketId = None, timestamp = Some t0\<rparr>),
          (''sA'', ROOM_USERS
             (room_users (fst (server_step empty_code_room ''sA'' t0 (Message (JOIN_ROOM [] alice))))
                []))]"
    by (simp add: empty_code_room_facts alice_fields)
  from reachable_empty_code_room connected join [THEN conjunct1]
    join [THEN conjunct2, THEN conjunct1] sent
  show ?thesis by (intro conjI)
qed

text \<open>
  Socket \<open>sA\<close> asks to join the room with the empty code. A room of that name comes into
  being with \<open>sA\<close> in it, and \<open>sA\<close> is sent the roster of that room.
\<close>

theorem join_empty_room_code_counterexample:
  "rooms connected_pair [] = []
   \<and> rooms (fst (server_step connected_pair ''sA'' t0 (Message (JOIN_ROOM [] alice)))) []
       = [''sA'']
   \<and> snd (server_step connected_pair ''sA'' t0 (Message (JOIN_ROOM [] alice)))
       = [(''sA'', ROOM_USERS [\<lparr>userId = Str ''u1'', userName = Str ''Alice'',
                               socketId = Some ''sA'', timestamp = None\<rparr>])]"
  by (simp add: connected_pair_rooms connected_pair_sockets server_step_join
        join_room_rooms join_room_sockets join_room_outbox socket_to_emit_def room_users_def
        roster_entry_def alice_fields)

section \<open>An explicit leave\<close>

text \<open>
  C1. The hook's \<^verbatim>\<open>leaveRoom\<close>, called with a socket and a current room, emits
  \<^verbatim>\<open>leave-room\<close> for that room and clears the hook's own room state; called with no
  current room it does nothing. The server has no listener for \<^verbatim>\<open>leave-room\<close>: whatever
  its state, the event changes nothing and nothing is sent, so the connection stays in
  its room and no \<^verbatim>\<open>user-left\<close> goes out.
\<close>

theorem leave_room_has_no_listener:
  "server_step s sid now (Message (LEAVE_ROOM roomCode)) = (s, [])
   \<and> (socketRef c \<and> currentRoom c = Some room \<and> room \<noteq> [] \<longrightarrow>
        leaveRoom c = (c\<lparr>currentRoom := None, roomUsers := []\<rparr>, [LEAVE_ROOM room]))
   \<and> (currentRoom c = None \<longrightarrow> leaveRoom c = (c, []))"
  by (simp add: server_step_def server_on_def leaveRoom_def split: option.splits)

text \<open>
  Alice and Bob are in room \<open>ABC123\<close>. Alice's hook calls \<^verbatim>\<open>leaveRoom\<close> and the server
  receives her \<^verbatim>\<open>leave-room\<close>: its state is unchanged and it sends nothing, \<open>sA\<close> is still
  a member of \<open>ABC123\<close>, and Bob's next page-change is still delivered to \<open>sA\<close>. Had \<open>sA\<close>
  disconnected instead, it would have left the room and Bob would have received
  \<^verbatim>\<open>user-left\<close>.
\<close>

theorem leave_room_has_no_listener_witness:
  "leaveRoom alice_in_room = (alice_connected, [LEAVE_ROOM ''ABC123''])
   \<and> server_step two_in_room ''sA'' t0 (Message (LEAVE_ROOM ''ABC123'')) = (two_in_room, [])
   \<and> rooms two_in_room ''ABC123'' = [''sA'', ''sB'']
   \<and> snd (server_step two_in_room ''sB'' t0 (Message (PAGE_CHANGE ''ABC123'' 2 ''u2'')))
       = [(''sA'', PAGE_CHANGED 2 ''u2'' t0)]
   \<and> snd (server_step two_in_room ''sA'' t0 Disconnect)
       = [(''sB'', USER_LEFT \<lparr>userId = Str ''u1'', userName = Str ''Alice'',
                              socketId = None, timestamp = Some t0\<rparr>)]
   \<and> rooms (fst (server_step two_in_room ''sA'' t0 Disconnect)) ''ABC123'' = [''sB'']"
proof -
  note leave = leave_room_has_no_listener
    [of two_in_room "''sA''" t0 "''ABC123''" alice_in_room "''ABC123''"]
  have in_room: "socketRef alice_in_room \<and> currentRoom alice_in_room = Some ''ABC123''
      \<and> ''ABC123'' \<noteq> []"
    by (simp add: alice_in_room_eq)
  have cleared: "alice_in_room\<lparr>currentRoom := None, roomUsers := []\<rparr> = alice_connected"
    by (simp add: alice_in_room_eq alice_connected_eq)
  from leave [THEN conjunct2, THEN conjunct1, rule_format, OF in_room] cleared
  have client_side: "leaveRoom alice_in_room = (alice_connected, [LEAVE_ROOM ''ABC123''])"
    by simp
  have ignored:
    "server_step two_in_room ''sA'' t0 (Message (LEAVE_ROOM ''ABC123'')) = (two_in_room, [])"
    by (rule leave [THEN conjunct1])
  have still_routed:
    "snd (server_step two_in_room ''sB'' t0 (Message (PAGE_CHANGE ''ABC123'' 2 ''u2'')))
       = [(''sA'', PAGE_CHANGED 2 ''u2'' t0)]"
    by (simp add: two_in_room_rooms two_in_room_sA two_in_room_sB server_step_def
          server_on_def on_page_change_def socket_to_emit_def)
  have disconnect:
    "snd (server_step two_in_room ''sA'' t0 Disconnect)
       = [(''sB'', USER_LEFT \<lparr>userId = Str ''u1'', userName = Str ''Alice'',
                              socketId = None, timestamp = Some t0\<rparr>)]
     \<and> rooms (fst (server_step two_in_room ''sA'' t0 Disconnect)) ''ABC123'' = [''sB'']"
    by (simp add: two_in_room_rooms two_in_room_sA two_in_room_sB server_step_def
          on_disconnect_def leaveAll_def socket_to_emit_def display_name_def alice_def Let_def)
  from client_side ignored two_in_room_rooms still_routed disconnect
  show ?thesis by (intro conjI) simp_all
qed

end
